theory Spec2Isabelle
  imports Main
begin

section \<open>The interactive move controller of src/gui/index.js\<close>

text \<open>
  The controller keeps one mutable object \<open>state\<close>, reacts to clicks on squares of the
  rendered board, asks a chess engine whether a pair of coordinates is a move, and posts
  search requests to a worker whose reply is applied as the computer's move.
  Every function below takes the page (the \<open>state\<close> object together with the part of the
  document and of the worker channel the controller writes) and returns the page it leaves.
\<close>

subsection \<open>Strings\<close>

text \<open>
  \<open>s.split(c)\<close> for a one-character separator: the pieces between the separators, in order.
  The result is never empty: a string without the separator is its own single piece.
\<close>

fun jsSplit :: "char \<Rightarrow> string \<Rightarrow> string list" where
  "jsSplit c [] = [[]]"
| "jsSplit c (x # xs) =
     (if x = c then [] # jsSplit c xs
      else (case jsSplit c xs of
              [] \<Rightarrow> [[x]]
            | y # ys \<Rightarrow> (x # y) # ys))"

text \<open>\<open>xs[i]\<close>: reading past the end of an array gives \<open>undefined\<close>, here \<open>None\<close>.\<close>

fun idx :: "'a list \<Rightarrow> nat \<Rightarrow> 'a option" where
  "idx [] i = None"
| "idx (x # xs) 0 = Some x"
| "idx (x # xs) (Suc i) = idx xs i"

text \<open>The regular expression \<open>\d\<close> matches the ten ASCII digits; \<open>parseInt(d, 10)\<close> is
  the digit's value.\<close>

definition isDigit :: "char \<Rightarrow> bool" where
  "isDigit c = (48 \<le> (of_char c :: nat) \<and> (of_char c :: nat) \<le> 57)"

definition parseInt :: "char \<Rightarrow> nat" where
  "parseInt c = (of_char c :: nat) - 48"

subsection \<open>The state object, the squares and the page\<close>

text \<open>
  A square of the board as the click handler reads it: its \<open>data-coordinate\<close> attribute and,
  when it has a \<open>.chess-piece\<close> child, that child's \<open>data-piece-colour\<close> attribute
  (\<open>None\<close> when \<open>querySelector\<close> finds no piece).
\<close>

record square =
  coordinate :: string
  piece :: "string option"

text \<open>The object \<open>state\<close>, field by field. \<open>difficulty\<close> is the number 3 at the start and
  whatever string the settings form supplies afterwards. It is used only to index
  \<open>difficultyScale\<close>, which turns it into a property key: the field holds that key, the
  string \<open>3\<close> for the number 3 and the form's string as it is.\<close>

record state =
  gameState :: string
  selectedSquare :: "square option"
  fen :: string
  playerColour :: string
  difficulty :: string
  pieceSet :: string
  boardTheme :: string

text \<open>
  What indexing \<open>difficultyScale\<close> can give: a number of the table, \<open>undefined\<close>, or a
  member that the object literal inherits from \<open>Object.prototype\<close>, which is a function or,
  under the key \<open>__proto__\<close>, the prototype object itself.
\<close>

datatype jsValue = Number int | Undefined | InheritedFunction | ObjectPrototype

text \<open>The message object built by \<open>makeComputerMove\<close>, with its fields \<open>fen\<close> and
  \<open>depth\<close>.\<close>

record message =
  msg_fen :: string
  msg_depth :: jsValue

text \<open>
  The message is posted as \<open>JSON.stringify(message)\<close>. In the text the worker receives, a
  member whose value is \<open>undefined\<close> or a function is left out, a number is written as it
  is, and the prototype object, which has no enumerable property, is written \<open>{}\<close>.
\<close>

datatype jsonMember = Omitted | JsonNumber int | JsonEmptyObject

fun stringifyDepth :: "jsValue \<Rightarrow> jsonMember" where
  "stringifyDepth (Number n) = JsonNumber n"
| "stringifyDepth Undefined = Omitted"
| "stringifyDepth InheritedFunction = Omitted"
| "stringifyDepth ObjectPrototype = JsonEmptyObject"

text \<open>
  The page: \<open>state\<close>, the coordinates of the squares carrying the class
  \<open>selected-square\<close>, whether the game element is displayed, the messages posted to the
  worker (oldest first) and whether \<open>chessWorker.onmessage\<close> has been assigned.
\<close>

record page = state +
  highlighted :: "string set"
  gameVisible :: bool
  posted :: "message list"
  handlerInstalled :: bool

text \<open>
  A handler either returns or is left by an uncaught \<open>TypeError\<close>. Either way the writes
  made up to that point stay, so both outcomes carry the page that is left.
\<close>

datatype outcome = Returns page | ThrowsTypeError page

fun pageOf :: "outcome \<Rightarrow> page" where
  "pageOf (Returns w) = w"
| "pageOf (ThrowsTypeError w) = w"

subsection \<open>The engine\<close>

text \<open>
  \<open>ChessEngineAPI\<close> comes from the engine bundle, which is not part of the controller.
  The controller builds an engine from a FEN string, applies one move to it and reads the
  FEN and the game-over status back. The engine is a parameter of the model: a type of
  engine objects with the four operations the controller calls.
\<close>

record 'e engine =
  ChessEngineAPI :: "string \<Rightarrow> 'e"
  applyMove :: "'e \<Rightarrow> string \<Rightarrow> 'e"
  getFen :: "'e \<Rightarrow> string"
  isGameOver :: "'e \<Rightarrow> string"

subsection \<open>The controller\<close>

text \<open>
  \<open>difficultyScale[key]\<close>. The object literal has the five own properties of the table;
  any other key is looked up in \<open>Object.prototype\<close>, whose members in a browser are the
  functions listed here and the accessor \<open>__proto__\<close>; a key found nowhere gives
  \<open>undefined\<close>.
\<close>

definition objectPrototypeFunctions :: "string list" where
  "objectPrototypeFunctions =
     [''constructor'', ''hasOwnProperty'', ''isPrototypeOf'', ''propertyIsEnumerable'',
      ''toLocaleString'', ''toString'', ''valueOf'', ''__defineGetter__'',
      ''__defineSetter__'', ''__lookupGetter__'', ''__lookupSetter__'']"

definition difficultyScale :: "string \<Rightarrow> jsValue" where
  "difficultyScale key =
     (if key = ''1'' then Number 2
      else if key = ''2'' then Number 4
      else if key = ''3'' then Number 5
      else if key = ''4'' then Number 7
      else if key = ''5'' then Number 10
      else if key = ''__proto__'' then ObjectPrototype
      else if key \<in> set objectPrototypeFunctions then InheritedFunction
      else Undefined)"

definition getTurn :: "page \<Rightarrow> string option" where
  "getTurn w = idx (jsSplit CHR '' '' (fen w)) 1"

definition expandRow :: "string \<Rightarrow> string" where
  "expandRow row = concat (map (\<lambda>c. if isDigit c then replicate (parseInt c) CHR ''0'' else [c]) row)"

definition transformFenToPositionArray :: "page \<Rightarrow> string list" where
  "transformFenToPositionArray w =
     (case idx (jsSplit CHR '' '' (fen w)) 0 of
        None \<Rightarrow> []
      | Some field \<Rightarrow> rev (map expandRow (jsSplit CHR ''/'' field)))"

text \<open>
  One pass of the inner loop of \<open>renderBoard\<close>, for the square in row \<open>row\<close> (8 down to 1)
  and column \<open>col\<close> (0 up to 7). It reads \<open>position[row-1][col]\<close>. When the position has
  no such row, indexing \<open>undefined\<close> raises; when the row has no such cell, the piece
  character is \<open>undefined\<close>, which is not the empty marker, and calling \<open>toLowerCase\<close> on
  it raises. Otherwise the square is built.
\<close>

definition squareRenders :: "string list \<Rightarrow> nat \<Rightarrow> nat \<Rightarrow> bool" where
  "squareRenders position row col =
     (case idx position (row - 1) of
        None \<Rightarrow> False
      | Some r \<Rightarrow> (case idx r col of None \<Rightarrow> False | Some pieceChar \<Rightarrow> True))"

definition boardRenders :: "string list \<Rightarrow> bool" where
  "boardRenders position =
     list_all (\<lambda>row. list_all (\<lambda>col. squareRenders position row col) [0, 1, 2, 3, 4, 5, 6, 7])
       [8, 7, 6, 5, 4, 3, 2, 1]"

text \<open>
  \<open>renderBoard\<close> empties the board first, so no square of the board is highlighted any
  more, then builds the squares from the position. When a square raises, the function is
  left there, before the game element is shown or hidden; otherwise the game element is
  shown exactly when the status is none of the three game-over values.
\<close>

definition renderBoard :: "page \<Rightarrow> outcome" where
  "renderBoard w =
     (let w1 = w\<lparr>highlighted := {}\<rparr>;
          position = transformFenToPositionArray w1
      in if boardRenders position
         then Returns (w1\<lparr>gameVisible := (gameState w \<noteq> ''checkmate''
                                           \<and> gameState w \<noteq> ''stalemate''
                                           \<and> gameState w \<noteq> ''50-move'')\<rparr>)
         else ThrowsTypeError w1)"

definition toggleSquareHighlight :: "square \<Rightarrow> page \<Rightarrow> page" where
  "toggleSquareHighlight sq w =
     w\<lparr>highlighted :=
         (if coordinate sq \<in> highlighted w then highlighted w - {coordinate sq}
          else insert (coordinate sq) (highlighted w))\<rparr>"

definition isValidMove :: "'e engine \<Rightarrow> string \<Rightarrow> page \<Rightarrow> bool" where
  "isValidMove E moveNotation w =
     (let e = applyMove E (ChessEngineAPI E (fen w)) moveNotation
      in \<not> (idx (jsSplit CHR '' '' (getFen E e)) 0 = idx (jsSplit CHR '' '' (fen w)) 0))"

definition makeMove :: "'e engine \<Rightarrow> string \<Rightarrow> page \<Rightarrow> outcome" where
  "makeMove E moveNotation w =
     (let e = applyMove E (ChessEngineAPI E (fen w)) moveNotation;
          w1 = (case selectedSquare w of
                  None \<Rightarrow> w
                | Some sel \<Rightarrow> w\<lparr>highlighted := highlighted w - {coordinate sel}\<rparr>);
          w2 = w1\<lparr>selectedSquare := None\<rparr>;
          w3 = w2\<lparr>fen := getFen E e\<rparr>;
          w4 = w3\<lparr>gameState := isGameOver E e\<rparr>
      in renderBoard w4)"

definition makeComputerMove :: "page \<Rightarrow> page" where
  "makeComputerMove w =
     w\<lparr>posted := posted w @ [\<lparr>msg_fen = fen w, msg_depth = difficultyScale (difficulty w)\<rparr>],
       handlerInstalled := True\<rparr>"

text \<open>
  The function assigned to \<open>chessWorker.onmessage\<close>. Its argument is \<open>event.data\<close>:
  \<open>None\<close> for \<open>null\<close> or \<open>undefined\<close>, otherwise the string replied; the empty string is
  falsy as well.
\<close>

definition onmessage :: "'e engine \<Rightarrow> string option \<Rightarrow> page \<Rightarrow> outcome" where
  "onmessage E bestMove w =
     (case bestMove of
        None \<Rightarrow> Returns w
      | Some m \<Rightarrow> if m = [] then Returns w else makeMove E m w)"

text \<open>
  The click handler. When \<open>makeMove\<close> is left by the error of \<open>renderBoard\<close>, so is the
  handler, and the call of \<open>makeComputerMove\<close> that follows it is not reached.
\<close>

definition handleSquareClick :: "'e engine \<Rightarrow> square \<Rightarrow> page \<Rightarrow> outcome" where
  "handleSquareClick E sq w =
     (if getTurn w \<noteq> Some (playerColour w) then Returns w
      else if selectedSquare w = None \<and> piece sq \<noteq> None
      then Returns ((toggleSquareHighlight sq w)\<lparr>selectedSquare := Some sq\<rparr>)
      else (case selectedSquare w of
              None \<Rightarrow> Returns w
            | Some sel \<Rightarrow>
                (let move = coordinate sel @ coordinate sq
                 in if isValidMove E move w
                    then (case makeMove E move w of
                            Returns w' \<Rightarrow> Returns (makeComputerMove w')
                          | ThrowsTypeError w' \<Rightarrow> ThrowsTypeError w')
                    else if coordinate sel = coordinate sq
                    then Returns (toggleSquareHighlight sq w)
                    else if piece sq = Some (playerColour w)
                    then Returns ((toggleSquareHighlight sq (toggleSquareHighlight sel w))
                                    \<lparr>selectedSquare := Some sq\<rparr>)
                    else Returns ((toggleSquareHighlight sel w)\<lparr>selectedSquare := None\<rparr>))))"

subsection \<open>Collapsing a parsed position\<close>

text \<open>
  The controller only parses; writing a position back is the engine's work. The round-trip
  property of the specification is stated with the inverse it describes, which follows the
  specification's words and not the source: runs of empty markers are collapsed back to
  digits and the order of the ranks is reversed again.

  A position field is taken as syntactically valid when it has 8 ranks separated by
  \<open>/\<close> and each rank consists of digits and letters that make up 8 cells, a digit
  counting for its value and a letter for one.
\<close>

definition isLetter :: "char \<Rightarrow> bool" where
  "isLetter c = ((65 \<le> (of_char c :: nat) \<and> (of_char c :: nat) \<le> 90)
                 \<or> (97 \<le> (of_char c :: nat) \<and> (of_char c :: nat) \<le> 122))"

definition cells :: "string \<Rightarrow> nat" where
  "cells row = sum_list (map (\<lambda>c. if isDigit c then parseInt c else 1) row)"

definition validRank :: "string \<Rightarrow> bool" where
  "validRank row = (list_all (\<lambda>c. isDigit c \<or> isLetter c) row \<and> cells row = 8)"

definition validField :: "string \<Rightarrow> bool" where
  "validField f = (length (jsSplit CHR ''/'' f) = 8 \<and> list_all validRank (jsSplit CHR ''/'' f))"

text \<open>A rank is canonical when it has no digit 0 and no two digits next to each other.\<close>

fun canonicalRank :: "string \<Rightarrow> bool" where
  "canonicalRank [] = True"
| "canonicalRank [c] = (c \<noteq> CHR ''0'')"
| "canonicalRank (c # d # cs) =
     (c \<noteq> CHR ''0'' \<and> \<not> (isDigit c \<and> isDigit d) \<and> canonicalRank (d # cs))"

definition canonicalField :: "string \<Rightarrow> bool" where
  "canonicalField f = list_all canonicalRank (jsSplit CHR ''/'' f)"

text \<open>The digit that stands for a run of \<open>n\<close> empty markers (a rank of 8 cells has no run
  longer than 8).\<close>

definition digitChar :: "nat \<Rightarrow> char" where
  "digitChar n = char_of (48 + n)"

text \<open>\<open>collapseRun n row\<close> collapses \<open>row\<close>, with \<open>n\<close> empty markers already read and
  not yet written.\<close>

fun collapseRun :: "nat \<Rightarrow> string \<Rightarrow> string" where
  "collapseRun n [] = (if n = 0 then [] else [digitChar n])"
| "collapseRun n (c # cs) =
     (if c = CHR ''0'' then collapseRun (Suc n) cs
      else (if n = 0 then [] else [digitChar n]) @ c # collapseRun 0 cs)"

definition collapseRow :: "string \<Rightarrow> string" where
  "collapseRow row = collapseRun 0 row"

fun joinRows :: "string list \<Rightarrow> string" where
  "joinRows [] = []"
| "joinRows [r] = r"
| "joinRows (r # r' # rs) = r @ CHR ''/'' # joinRows (r' # rs)"

definition collapsePosition :: "string list \<Rightarrow> string" where
  "collapsePosition rows = joinRows (rev (map collapseRow rows))"

subsection \<open>A session to run the controller on\<close>

text \<open>
  The state as the source declares it, on a rendered board with nothing posted yet.
\<close>

definition startFen :: string where
  "startFen = ''rnbqkbnr/pppppppp/8/8/8/8/PPPPPPPP/RNBQKBNR w KQkq - 0 1''"

definition initialPage :: page where
  "initialPage =
     \<lparr>gameState = ''playing'', selectedSquare = None, fen = startFen,
      playerColour = ''w'', difficulty = ''3'', pieceSet = ''open-chess-font'',
      boardTheme = ''dark'', highlighted = {}, gameVisible = True, posted = [],
      handlerInstalled = False\<rparr>"

text \<open>
  Three positions of a short game: after 1. e4; after 1. f3 e5 2. g4, Black to move; and
  after 2... Qh4, which mates White.
\<close>

definition afterE4 :: string where
  "afterE4 = ''rnbqkbnr/pppppppp/8/8/4P3/8/PPPP1PPP/RNBQKBNR b KQkq e3 0 1''"

definition afterG4 :: string where
  "afterG4 = ''rnbqkbnr/pppp1ppp/8/4p3/6P1/5P2/PPPPP2P/RNBQKBNR b KQkq g3 0 2''"

definition afterQh4 :: string where
  "afterQh4 = ''rnb1kbnr/pppp1ppp/8/4p3/6Pq/5P2/PPPPP2P/RNBQKBNR w KQkq - 1 3''"

text \<open>
  An engine object that is its FEN string. It plays the pawn to e4 from the starting position
  and the queen to h4 in the second position, ignores every other move (the position is
  left as it was, which is what the controller takes for a refusal), and reports checkmate
  in the mated position and \<open>playing\<close> elsewhere.
\<close>

definition sampleEngine :: "string engine" where
  "sampleEngine =
     \<lparr>ChessEngineAPI = (\<lambda>f. f),
      applyMove = (\<lambda>e m. if e = startFen \<and> m = ''e2e4'' then afterE4
                         else if e = afterG4 \<and> m = ''d8h4'' then afterQh4
                         else e),
      getFen = (\<lambda>e. e),
      isGameOver = (\<lambda>e. if e = afterQh4 then ''checkmate'' else ''playing'')\<rparr>"

text \<open>Squares of the board rendered from these positions.\<close>

definition squareE2 :: square where
  "squareE2 = \<lparr>coordinate = ''e2'', piece = Some ''w''\<rparr>"

definition squareE4 :: square where
  "squareE4 = \<lparr>coordinate = ''e4'', piece = None\<rparr>"

definition squareE7 :: square where
  "squareE7 = \<lparr>coordinate = ''e7'', piece = Some ''b''\<rparr>"

definition squareD8 :: square where
  "squareD8 = \<lparr>coordinate = ''d8'', piece = Some ''b''\<rparr>"

definition squareH4 :: square where
  "squareH4 = \<lparr>coordinate = ''h4'', piece = None\<rparr>"

text \<open>
  The player has White and the computer has been asked for its move in the second position;
  it replies with the mating queen move, and \<open>matedPage\<close> is the page the reply handler
  leaves.
\<close>

definition computerToMovePage :: page where
  "computerToMovePage = makeComputerMove (initialPage\<lparr>fen := afterG4\<rparr>)"

definition matedPage :: page where
  "matedPage = pageOf (onmessage sampleEngine (Some ''d8h4'') computerToMovePage)"

text \<open>
  The player has Black, is to move in the second position and has clicked the queen on d8;
  the next click, on h4, mates.
\<close>

definition queenArmedPage :: page where
  "queenArmedPage =
     pageOf (handleSquareClick sampleEngine squareD8
               (initialPage\<lparr>fen := afterG4, playerColour := ''b''\<rparr>))"

definition playerMatesPage :: page where
  "playerMatesPage = pageOf (handleSquareClick sampleEngine squareH4 queenArmedPage)"

text \<open>
  The player has Black and the session starts from the mated position, White to move, so
  the computer has been asked for a move. No move has been committed yet, and the status
  is still the declared \<open>playing\<close>.
\<close>

definition configuredMatedPage :: page where
  "configuredMatedPage = makeComputerMove (initialPage\<lparr>fen := afterQh4, playerColour := ''b''\<rparr>)"

text \<open>
  A second engine, like the first except that its answer to the pawn move has lost the
  last cell of the first rank: a position the board cannot be rendered from.
\<close>

definition shortRankFen :: string where
  "shortRankFen = ''rnbqkbnr/pppppppp/8/8/4P3/8/PPPP1PPP/RNBQKBN b KQkq e3 0 1''"

definition shortRankEngine :: "string engine" where
  "shortRankEngine =
     \<lparr>ChessEngineAPI = (\<lambda>f. f),
      applyMove = (\<lambda>e m. if e = startFen \<and> m = ''e2e4'' then shortRankFen else e),
      getFen = (\<lambda>e. e),
      isGameOver = (\<lambda>e. ''playing'')\<rparr>"

section \<open>Properties\<close>

lemmas controller_defs = handleSquareClick_def getTurn_def isValidMove_def makeMove_def
  makeComputerMove_def toggleSquareHighlight_def renderBoard_def onmessage_def
  difficultyScale_def

lemmas session_defs = sampleEngine_def startFen_def afterE4_def afterG4_def afterQh4_def
  initialPage_def squareE2_def squareE4_def squareE7_def squareD8_def squareH4_def
  computerToMovePage_def queenArmedPage_def

subsection \<open>Rendering the positions of the sample session\<close>

lemma position_of_fen:
  "fen w = fen w' \<Longrightarrow> transformFenToPositionArray w = transformFenToPositionArray w'"
  by (simp add: transformFenToPositionArray_def)

lemma afterE4_renders_at_initialPage:
  "boardRenders (transformFenToPositionArray (initialPage\<lparr>fen := afterE4\<rparr>))"
  by code_simp

lemma afterQh4_renders_at_initialPage:
  "boardRenders (transformFenToPositionArray (initialPage\<lparr>fen := afterQh4\<rparr>))"
  by code_simp

lemma shortRankFen_fails_at_initialPage:
  "\<not> boardRenders (transformFenToPositionArray (initialPage\<lparr>fen := shortRankFen\<rparr>))"
  by code_simp

lemma afterE4_renders: "fen w = afterE4 \<Longrightarrow> boardRenders (transformFenToPositionArray w)"
  using afterE4_renders_at_initialPage position_of_fen [of w "initialPage\<lparr>fen := afterE4\<rparr>"]
  by simp

lemma afterQh4_renders: "fen w = afterQh4 \<Longrightarrow> boardRenders (transformFenToPositionArray w)"
  using afterQh4_renders_at_initialPage position_of_fen [of w "initialPage\<lparr>fen := afterQh4\<rparr>"]
  by simp

lemma shortRankFen_fails:
  "fen w = shortRankFen \<Longrightarrow> \<not> boardRenders (transformFenToPositionArray w)"
  using shortRankFen_fails_at_initialPage
    position_of_fen [of w "initialPage\<lparr>fen := shortRankFen\<rparr>"]
  by simp

lemmas renders = afterE4_renders afterQh4_renders

subsection \<open>The sample session, evaluated\<close>

lemma armedE2_eq:
  "handleSquareClick sampleEngine squareE2 initialPage
     = Returns (initialPage\<lparr>selectedSquare := Some squareE2, highlighted := {''e2''}\<rparr>)"
  by (simp add: controller_defs session_defs)


lemma matedPage_eq:
  "matedPage = initialPage\<lparr>fen := afterQh4, gameState := ''checkmate'', gameVisible := False,
     posted := [\<lparr>msg_fen = afterG4, msg_depth = Number 5\<rparr>], handlerInstalled := True\<rparr>"
  by (simp add: matedPage_def controller_defs session_defs renders Let_def)

lemma queenArmedPage_eq:
  "queenArmedPage = initialPage\<lparr>fen := afterG4, playerColour := ''b'',
     selectedSquare := Some squareD8, highlighted := {''d8''}\<rparr>"
  by (simp add: controller_defs session_defs)

lemma queen_mates_eq:
  "handleSquareClick sampleEngine squareH4 queenArmedPage
     = Returns (initialPage\<lparr>fen := afterQh4, playerColour := ''b'',
         gameState := ''checkmate'', gameVisible := False,
         posted := [\<lparr>msg_fen = afterQh4, msg_depth = Number 5\<rparr>], handlerInstalled := True\<rparr>)"
  by (simp add: queenArmedPage_eq)
     (simp add: controller_defs session_defs renders Let_def)

lemma playerMatesPage_eq:
  "playerMatesPage = initialPage\<lparr>fen := afterQh4, playerColour := ''b'',
     gameState := ''checkmate'', gameVisible := False,
     posted := [\<lparr>msg_fen = afterQh4, msg_depth = Number 5\<rparr>], handlerInstalled := True\<rparr>"
  by (simp add: playerMatesPage_def queen_mates_eq)

subsection \<open>The turn guard\<close>

text \<open>
  C6. A click on a square while the side to move in the FEN is not the player's colour
  changes nothing: the handler returns and the page after it is the page before it, so no
  move is committed, the session and the selection are as they were, and nothing is posted.
\<close>

theorem off_turn_activation_is_noop:
  "getTurn w \<noteq> Some (playerColour w) \<Longrightarrow> handleSquareClick E sq w = Returns w"
  by (simp add: handleSquareClick_def)

theorem off_turn_activation_is_noop_witness:
  "getTurn computerToMovePage \<noteq> Some (playerColour computerToMovePage)
   \<and> handleSquareClick sampleEngine squareE2 computerToMovePage = Returns computerToMovePage"
proof -
  have turn: "getTurn computerToMovePage \<noteq> Some (playerColour computerToMovePage)"
    by (simp add: getTurn_def makeComputerMove_def computerToMovePage_def initialPage_def afterG4_def)
  show ?thesis
    using turn off_turn_activation_is_noop [OF turn, of sampleEngine squareE2] by simp
qed

text \<open>
  C2 (as the code has it). Once the status is checkmate, stalemate or the fifty-move draw,
  a click is ignored entirely whenever the side to move is not the player's colour: the
  handler returns and the page is left as it was. The handler never reads the status, so
  nothing is promised for a click made when the side to move is the player's.
\<close>

theorem terminal_off_turn_activation_ignored:
  assumes "gameState w = ''checkmate'' \<or> gameState w = ''stalemate'' \<or> gameState w = ''50-move''"
    and "getTurn w \<noteq> Some (playerColour w)"
  shows "handleSquareClick E sq w = Returns w"
  using assms(2) by (simp add: handleSquareClick_def)

theorem terminal_off_turn_activation_ignored_witness:
  "(gameState playerMatesPage = ''checkmate'' \<or> gameState playerMatesPage = ''stalemate''
      \<or> gameState playerMatesPage = ''50-move'')
   \<and> getTurn playerMatesPage \<noteq> Some (playerColour playerMatesPage)
   \<and> handleSquareClick sampleEngine squareE7 playerMatesPage = Returns playerMatesPage"
proof -
  have status: "gameState playerMatesPage = ''checkmate'' \<or> gameState playerMatesPage = ''stalemate''
      \<or> gameState playerMatesPage = ''50-move''"
    by (simp add: playerMatesPage_eq)
  have turn: "getTurn playerMatesPage \<noteq> Some (playerColour playerMatesPage)"
    by (simp add: playerMatesPage_eq) (simp add: getTurn_def initialPage_def afterQh4_def)
  show ?thesis
    using status turn
      terminal_off_turn_activation_ignored [OF status turn, of sampleEngine squareE7]
    by simp
qed

text \<open>
  C2 as stated fails. The computer's reply mates the player, who has White: the status is
  checkmate and the side to move is the player's. A click on the pawn on e2 is not ignored;
  it selects the square.
\<close>

theorem activation_after_checkmate_counterexample:
  "gameState matedPage = ''checkmate''
   \<and> selectedSquare matedPage = None
   \<and> selectedSquare (pageOf (handleSquareClick sampleEngine squareE2 matedPage)) = Some squareE2
   \<and> handleSquareClick sampleEngine squareE2 matedPage \<noteq> Returns matedPage"
proof -
  have sel: "selectedSquare (pageOf (handleSquareClick sampleEngine squareE2 matedPage))
      = Some squareE2"
    by (simp add: matedPage_eq) (simp add: controller_defs session_defs)
  have none: "selectedSquare matedPage = None"
    by (simp add: matedPage_eq initialPage_def)
  from sel none have "handleSquareClick sampleEngine squareE2 matedPage \<noteq> Returns matedPage"
    by auto
  with sel none show ?thesis by (simp add: matedPage_eq)
qed

subsection \<open>Rejected attempts\<close>

text \<open>
  C5. When a square is selected and the engine leaves the piece placement as it was for
  the move from the selected square to the clicked one, the click changes none of the
  position, the status, the player's colour and the difficulty.
\<close>

theorem rejected_attempt_keeps_session:
  assumes "selectedSquare w = Some sel"
    and "\<not> isValidMove E (coordinate sel @ coordinate sq) w"
  shows "fen (pageOf (handleSquareClick E sq w)) = fen w
         \<and> gameState (pageOf (handleSquareClick E sq w)) = gameState w
         \<and> playerColour (pageOf (handleSquareClick E sq w)) = playerColour w
         \<and> difficulty (pageOf (handleSquareClick E sq w)) = difficulty w"
  using assms by (simp add: handleSquareClick_def toggleSquareHighlight_def)

theorem rejected_attempt_keeps_session_witness:
  "selectedSquare (pageOf (handleSquareClick sampleEngine squareE2 initialPage)) = Some squareE2
   \<and> \<not> isValidMove sampleEngine (coordinate squareE2 @ coordinate squareE7)
         (pageOf (handleSquareClick sampleEngine squareE2 initialPage))
   \<and> fen (pageOf (handleSquareClick sampleEngine squareE7
            (pageOf (handleSquareClick sampleEngine squareE2 initialPage)))) = startFen
   \<and> gameState (pageOf (handleSquareClick sampleEngine squareE7
            (pageOf (handleSquareClick sampleEngine squareE2 initialPage)))) = ''playing''
   \<and> playerColour (pageOf (handleSquareClick sampleEngine squareE7
            (pageOf (handleSquareClick sampleEngine squareE2 initialPage)))) = ''w''
   \<and> difficulty (pageOf (handleSquareClick sampleEngine squareE7
            (pageOf (handleSquareClick sampleEngine squareE2 initialPage)))) = ''3''"
proof -
  note armed = armedE2_eq
  have sel: "selectedSquare (pageOf (handleSquareClick sampleEngine squareE2 initialPage))
      = Some squareE2"
    by (simp add: armed)
  have rejected: "\<not> isValidMove sampleEngine (coordinate squareE2 @ coordinate squareE7)
         (pageOf (handleSquareClick sampleEngine squareE2 initialPage))"
    by (simp add: armed) (simp add: controller_defs session_defs)
  show ?thesis
    using sel rejected rejected_attempt_keeps_session [OF sel rejected]
    by (simp add: armed) (simp add: initialPage_def)
qed

subsection \<open>Clicking the selected square again\<close>

text \<open>
  C1. A click on the selected square should clear the selection. The code does not: from
  the starting position a click on e2 selects it; a second click on e2 takes the highlight
  off but leaves \<open>selectedSquare\<close> on e2; and a third click, on e4, then commits the move
  from e2 to e4.
\<close>

theorem reclick_keeps_selectedSquare:
  "selectedSquare (pageOf (handleSquareClick sampleEngine squareE2 initialPage)) = Some squareE2
   \<and> selectedSquare (pageOf (handleSquareClick sampleEngine squareE2
        (pageOf (handleSquareClick sampleEngine squareE2 initialPage)))) = Some squareE2
   \<and> highlighted (pageOf (handleSquareClick sampleEngine squareE2
        (pageOf (handleSquareClick sampleEngine squareE2 initialPage)))) = {}
   \<and> fen (pageOf (handleSquareClick sampleEngine squareE4
        (pageOf (handleSquareClick sampleEngine squareE2
          (pageOf (handleSquareClick sampleEngine squareE2 initialPage)))))) = afterE4"
proof -
  have again: "handleSquareClick sampleEngine squareE2
        (initialPage\<lparr>selectedSquare := Some squareE2, highlighted := {''e2''}\<rparr>)
      = Returns (initialPage\<lparr>selectedSquare := Some squareE2\<rparr>)"
    by (simp add: controller_defs session_defs)
  have third: "fen (pageOf (handleSquareClick sampleEngine squareE4
        (initialPage\<lparr>selectedSquare := Some squareE2\<rparr>))) = afterE4"
    by (simp add: controller_defs session_defs renders Let_def)
  have armed: "handleSquareClick sampleEngine squareE2 initialPage
      = Returns (initialPage\<lparr>selectedSquare := Some squareE2, highlighted := {''e2''}\<rparr>)"
    by (simp add: controller_defs session_defs)
  show ?thesis
    by (simp add: armed again third) (simp add: initialPage_def)
qed

subsection \<open>Search requests\<close>

text \<open>
  C8. With difficulty 1, 2, 3, 4 or 5, \<open>makeComputerMove\<close> posts one more message, whose
  depth is 2, 4, 5, 7 or 10 respectively and whose FEN is the FEN of the state at that
  moment.
\<close>

theorem request_depth_of_difficulty:
  "posted (makeComputerMove (w\<lparr>difficulty := ''1''\<rparr>))
     = posted w @ [\<lparr>msg_fen = fen w, msg_depth = Number 2\<rparr>]
   \<and> posted (makeComputerMove (w\<lparr>difficulty := ''2''\<rparr>))
     = posted w @ [\<lparr>msg_fen = fen w, msg_depth = Number 4\<rparr>]
   \<and> posted (makeComputerMove (w\<lparr>difficulty := ''3''\<rparr>))
     = posted w @ [\<lparr>msg_fen = fen w, msg_depth = Number 5\<rparr>]
   \<and> posted (makeComputerMove (w\<lparr>difficulty := ''4''\<rparr>))
     = posted w @ [\<lparr>msg_fen = fen w, msg_depth = Number 7\<rparr>]
   \<and> posted (makeComputerMove (w\<lparr>difficulty := ''5''\<rparr>))
     = posted w @ [\<lparr>msg_fen = fen w, msg_depth = Number 10\<rparr>]"
  by (simp add: makeComputerMove_def difficultyScale_def)

text \<open>
  C10 (as the code has it). With a difficulty whose key is none of 1 to 5,
  \<open>makeComputerMove\<close> still posts one more message with the FEN of the state, and its depth
  is never a number. The depth is \<open>undefined\<close> unless the key names a member inherited from
  \<open>Object.prototype\<close>; in the serialised message the depth is left out, except under the
  key \<open>__proto__\<close>, where it is the empty object.
\<close>

theorem request_outside_table_depth_is_no_number:
  assumes "d \<noteq> ''1''" and "d \<noteq> ''2''" and "d \<noteq> ''3''" and "d \<noteq> ''4''" and "d \<noteq> ''5''"
  shows "posted (makeComputerMove (w\<lparr>difficulty := d\<rparr>))
           = posted w @ [\<lparr>msg_fen = fen w, msg_depth = difficultyScale d\<rparr>]
         \<and> difficultyScale d \<noteq> Number n
         \<and> (d = ''__proto__'' \<or> d \<in> set objectPrototypeFunctions \<or> difficultyScale d = Undefined)
         \<and> stringifyDepth (difficultyScale d)
             = (if d = ''__proto__'' then JsonEmptyObject else Omitted)"
  using assms by (simp add: makeComputerMove_def difficultyScale_def)

theorem request_outside_table_depth_is_no_number_witness:
  "''6'' \<noteq> ''1'' \<and> ''6'' \<noteq> ''2'' \<and> ''6'' \<noteq> ''3'' \<and> ''6'' \<noteq> ''4'' \<and> ''6'' \<noteq> ''5''
   \<and> posted (makeComputerMove (initialPage\<lparr>difficulty := ''6''\<rparr>))
       = [\<lparr>msg_fen = startFen, msg_depth = Undefined\<rparr>]
   \<and> stringifyDepth (difficultyScale ''6'') = Omitted"
  using request_outside_table_depth_is_no_number [of "''6''" initialPage 0]
  by (simp add: initialPage_def objectPrototypeFunctions_def)

text \<open>
  C10 as stated fails. The key \<open>__proto__\<close> is outside the table, and the depth of the
  request is then the prototype object, which is neither \<open>undefined\<close> nor left out of the
  serialised message.
\<close>

theorem request_with_proto_key_counterexample:
  "posted (makeComputerMove (initialPage\<lparr>difficulty := ''__proto__''\<rparr>))
     = [\<lparr>msg_fen = startFen, msg_depth = ObjectPrototype\<rparr>]
   \<and> ObjectPrototype \<noteq> Undefined
   \<and> stringifyDepth ObjectPrototype = JsonEmptyObject"
  by (simp add: makeComputerMove_def difficultyScale_def initialPage_def)




text \<open>
  With the second engine the pawn move is committed, but the board cannot be rendered from
  the committed position: the click is left by the error and posts nothing.
\<close>

lemma commit_of_short_rank_posts_nothing:
  "handleSquareClick shortRankEngine squareE4
     (initialPage\<lparr>selectedSquare := Some squareE2, highlighted := {''e2''}\<rparr>)
   = ThrowsTypeError (initialPage\<lparr>fen := shortRankFen\<rparr>)"
  by (simp add: handleSquareClick_def getTurn_def isValidMove_def makeMove_def renderBoard_def
      shortRankEngine_def shortRankFen_fails Let_def)
     (simp add: initialPage_def startFen_def shortRankFen_def squareE2_def squareE4_def)

subsection \<open>Replies of the worker\<close>

text \<open>
  C9. A reply that is \<open>null\<close>, \<open>undefined\<close> or the empty string leaves the page as it
  was: the handler returns, no move is applied, the session is unchanged and no further
  message is posted.
\<close>

theorem empty_reply_is_dropped:
  "onmessage E None w = Returns w \<and> onmessage E (Some []) w = Returns w"
  by (simp add: onmessage_def)

text \<open>
  C3 (as the code has it). A reply that carries a move is committed by \<open>makeMove\<close>
  directly, without the check a click goes through: the position becomes the FEN the
  engine gives after the move, the status becomes the engine's game-over answer, the
  selection is cleared, the player's colour and the difficulty stay, and nothing is posted.
\<close>

theorem reply_move_is_committed_unchecked:
  "m \<noteq> [] \<Longrightarrow>
   fen (pageOf (onmessage E (Some m) w)) = getFen E (applyMove E (ChessEngineAPI E (fen w)) m)
   \<and> gameState (pageOf (onmessage E (Some m) w))
       = isGameOver E (applyMove E (ChessEngineAPI E (fen w)) m)
   \<and> selectedSquare (pageOf (onmessage E (Some m) w)) = None
   \<and> playerColour (pageOf (onmessage E (Some m) w)) = playerColour w
   \<and> difficulty (pageOf (onmessage E (Some m) w)) = difficulty w
   \<and> posted (pageOf (onmessage E (Some m) w)) = posted w"
  by (simp add: onmessage_def makeMove_def renderBoard_def Let_def split: option.split)

theorem reply_move_is_committed_unchecked_witness:
  "''d8h4'' \<noteq> []
   \<and> fen (pageOf (onmessage sampleEngine (Some ''d8h4'') computerToMovePage)) = afterQh4
   \<and> gameState (pageOf (onmessage sampleEngine (Some ''d8h4'') computerToMovePage)) = ''checkmate''
   \<and> selectedSquare (pageOf (onmessage sampleEngine (Some ''d8h4'') computerToMovePage)) = None
   \<and> posted (pageOf (onmessage sampleEngine (Some ''d8h4'') computerToMovePage))
       = [\<lparr>msg_fen = afterG4, msg_depth = Number 5\<rparr>]"
  using reply_move_is_committed_unchecked [of "''d8h4''" sampleEngine computerToMovePage]
  by (simp add: computerToMovePage_def makeComputerMove_def difficultyScale_def
      initialPage_def sampleEngine_def)

text \<open>
  C3 as stated fails. In the session started from the mated position the engine ignores
  the reply e2e4, so the piece placement is the one before; a click would be refused, but
  the reply is committed and the status of the session changes from \<open>playing\<close> to
  checkmate.
\<close>

theorem unchanged_reply_counterexample:
  "\<not> isValidMove sampleEngine ''e2e4'' configuredMatedPage
   \<and> gameState configuredMatedPage = ''playing''
   \<and> gameState (pageOf (onmessage sampleEngine (Some ''e2e4'') configuredMatedPage))
       = ''checkmate''"
  by (simp add: configuredMatedPage_def controller_defs session_defs renders Let_def)

subsection \<open>The round trip of the position field\<close>

lemma jsSplit_nonempty: "jsSplit c s \<noteq> []"
  by (induction s) (auto split: list.split)

lemma joinRows_Cons: "rs \<noteq> [] \<Longrightarrow> joinRows (r # rs) = r @ CHR ''/'' # joinRows rs"
  by (cases rs) simp_all

lemma joinRows_jsSplit: "joinRows (jsSplit CHR ''/'' s) = s"
proof (induction s)
  case Nil
  show ?case by simp
next
  case (Cons x xs)
  obtain y ys where split: "jsSplit CHR ''/'' xs = y # ys"
    using jsSplit_nonempty [of "CHR ''/''" xs] by (cases "jsSplit CHR ''/'' xs") auto
  show ?case
  proof (cases "x = CHR ''/''")
    case True
    then show ?thesis using Cons split by (simp add: joinRows_Cons)
  next
    case False
    then show ?thesis using Cons split by (cases ys) auto
  qed
qed

lemma jsSplit_first: "c \<notin> set f \<Longrightarrow> jsSplit c (f @ c # rest) = f # jsSplit c rest"
  by (induction f) auto

lemma jsSplit_chars: "x \<in> set s \<Longrightarrow> x = c \<or> (\<exists>r \<in> set (jsSplit c s). x \<in> set r)"
proof (induction s)
  case Nil
  then show ?case by simp
next
  case (Cons a s)
  obtain y ys where split: "jsSplit c s = y # ys"
    using jsSplit_nonempty [of c s] by (cases "jsSplit c s") auto
  show ?case
  proof (cases "a = c")
    case True
    then show ?thesis using Cons split by auto
  next
    case False
    then show ?thesis using Cons split by auto
  qed
qed

lemma expandRow_Nil: "expandRow [] = []"
  by (simp add: expandRow_def)

lemma expandRow_Cons:
  "expandRow (c # cs) = (if isDigit c then replicate (parseInt c) CHR ''0'' else [c]) @ expandRow cs"
  by (simp add: expandRow_def)

lemma collapseRun_replicate: "collapseRun n (replicate k CHR ''0'' @ xs) = collapseRun (n + k) xs"
  by (induction k arbitrary: n) simp_all

lemma zero_isDigit: "isDigit CHR ''0''"
  by (simp add: isDigit_def)

lemma digitChar_parseInt: "isDigit c \<Longrightarrow> digitChar (parseInt c) = c"
  by (simp add: isDigit_def digitChar_def parseInt_def)

lemma of_char_zero: "(of_char c :: nat) = 48 \<Longrightarrow> c = CHR ''0''"
proof -
  assume "(of_char c :: nat) = 48"
  then have "(of_char c :: nat) = of_char CHR ''0''" by simp
  then show ?thesis by (rule of_char_eqI)
qed

lemma parseInt_pos: "isDigit c \<Longrightarrow> c \<noteq> CHR ''0'' \<Longrightarrow> 0 < parseInt c"
proof -
  assume digit: "isDigit c" and nz: "c \<noteq> CHR ''0''"
  from nz of_char_zero [of c] have "(of_char c :: nat) \<noteq> 48" by blast
  moreover from digit have "48 \<le> (of_char c :: nat)" by (simp add: isDigit_def)
  ultimately have "48 < (of_char c :: nat)" by linarith
  then show ?thesis by (simp add: parseInt_def)
qed

lemma not_digit_not_zero: "\<not> isDigit c \<Longrightarrow> c \<noteq> CHR ''0''"
  using zero_isDigit by auto

lemma collapse_expand_rank: "canonicalRank r \<Longrightarrow> collapseRun 0 (expandRow r) = r"
proof (induction r rule: canonicalRank.induct)
  case 1
  show ?case by (simp add: expandRow_Nil)
next
  case (2 c)
  show ?case
  proof (cases "isDigit c")
    case True
    with 2 have "0 < parseInt c" by (simp add: parseInt_pos)
    with True show ?thesis
      using collapseRun_replicate [of 0 "parseInt c" "[]"]
      by (simp add: expandRow_Cons expandRow_Nil digitChar_parseInt)
  next
    case False
    then show ?thesis
      by (simp add: expandRow_Cons expandRow_Nil not_digit_not_zero)
  qed
next
  case (3 c d cs)
  then have c0: "c \<noteq> CHR ''0''" and adj: "\<not> (isDigit c \<and> isDigit d)"
    and rest: "collapseRun 0 (expandRow (d # cs)) = d # cs"
    by simp_all
  show ?case
  proof (cases "isDigit c")
    case True
    with adj have d: "\<not> isDigit d" by simp
    from rest d have tail: "collapseRun 0 (expandRow cs) = cs"
      by (simp add: expandRow_Cons not_digit_not_zero)
    from True c0 have pos: "0 < parseInt c" by (simp add: parseInt_pos)
    have "collapseRun 0 (expandRow (c # d # cs)) = collapseRun (parseInt c) (d # expandRow cs)"
      using True d collapseRun_replicate [of 0 "parseInt c" "d # expandRow cs"]
      by (simp add: expandRow_Cons)
    also have "\<dots> = c # d # cs"
      using pos d tail True by (simp add: not_digit_not_zero digitChar_parseInt)
    finally show ?thesis .
  next
    case False
    then show ?thesis using rest
      by (simp add: expandRow_Cons [of c] not_digit_not_zero)
  qed
qed

lemma collapse_expand_rows:
  "list_all canonicalRank rs \<Longrightarrow> rev (map collapseRow (rev (map expandRow rs))) = rs"
  by (induction rs) (simp_all add: rev_map collapseRow_def collapse_expand_rank)

lemma letter_or_digit_not_space: "isDigit c \<or> isLetter c \<Longrightarrow> c \<noteq> CHR '' ''"
  by (auto simp add: isDigit_def isLetter_def)

lemma validField_no_space: "validField f \<Longrightarrow> CHR '' '' \<notin> set f"
proof
  assume valid: "validField f" and mem: "CHR '' '' \<in> set f"
  from jsSplit_chars [OF mem, of "CHR ''/''"]
  obtain r where r: "r \<in> set (jsSplit CHR ''/'' f)" and inr: "CHR '' '' \<in> set r"
    by auto
  from valid r have "validRank r" by (simp add: validField_def list_all_iff)
  with inr have "isDigit CHR '' '' \<or> isLetter CHR '' ''"
    by (auto simp add: validRank_def list_all_iff)
  then show False using letter_or_digit_not_space by blast
qed

text \<open>
  C7 (as the code has it). For a syntactically valid position field that is canonical (no
  rank has a digit 0 or two digits next to each other), followed by a space and the other
  fields of the FEN, parsing with \<open>transformFenToPositionArray\<close> and then collapsing the
  runs of empty markers to digits and reversing the ranks again gives the position field
  back.
\<close>

theorem fen_round_trip:
  assumes "validField f" and "canonicalField f"
  shows "collapsePosition (transformFenToPositionArray (w\<lparr>fen := f @ CHR '' '' # rest\<rparr>)) = f"
proof -
  have "idx (jsSplit CHR '' '' (f @ CHR '' '' # rest)) 0 = Some f"
    using validField_no_space [OF assms(1)] by (simp add: jsSplit_first)
  then have "transformFenToPositionArray (w\<lparr>fen := f @ CHR '' '' # rest\<rparr>)
      = rev (map expandRow (jsSplit CHR ''/'' f))"
    by (simp add: transformFenToPositionArray_def)
  then show ?thesis
    using assms(2)
    by (simp add: collapsePosition_def canonicalField_def collapse_expand_rows joinRows_jsSplit)
qed

theorem fen_round_trip_witness:
  "validField ''rnbqkbnr/pppp1ppp/8/4p3/6P1/5P2/PPPPP2P/RNBQKBNR''
   \<and> canonicalField ''rnbqkbnr/pppp1ppp/8/4p3/6P1/5P2/PPPPP2P/RNBQKBNR''
   \<and> collapsePosition (transformFenToPositionArray (initialPage\<lparr>fen := afterG4\<rparr>))
       = ''rnbqkbnr/pppp1ppp/8/4p3/6P1/5P2/PPPPP2P/RNBQKBNR''"
proof -
  have v: "validField ''rnbqkbnr/pppp1ppp/8/4p3/6P1/5P2/PPPPP2P/RNBQKBNR''"
    by (simp add: validField_def validRank_def cells_def isDigit_def isLetter_def parseInt_def)
  have c: "canonicalField ''rnbqkbnr/pppp1ppp/8/4p3/6P1/5P2/PPPPP2P/RNBQKBNR''"
    by (simp add: canonicalField_def isDigit_def)
  show ?thesis
    using v c fen_round_trip [OF v c, where w = initialPage and rest = "''b KQkq g3 0 2''"]
    by (simp add: afterG4_def)
qed

text \<open>
  C7 as stated fails. A rank written \<open>44\<close> has 8 cells, so the field below is
  syntactically valid; it parses to eight empty markers, which collapse to \<open>8\<close>, and the
  round trip gives a different field.
\<close>

theorem adjacent_digits_counterexample:
  "validField ''rnbqkbnr/pppppppp/8/8/44/8/PPPPPPPP/RNBQKBNR''
   \<and> collapsePosition (transformFenToPositionArray
        (initialPage\<lparr>fen := ''rnbqkbnr/pppppppp/8/8/44/8/PPPPPPPP/RNBQKBNR w KQkq - 0 1''\<rparr>))
       = ''rnbqkbnr/pppppppp/8/8/8/8/PPPPPPPP/RNBQKBNR''
   \<and> collapsePosition (transformFenToPositionArray
        (initialPage\<lparr>fen := ''rnbqkbnr/pppppppp/8/8/44/8/PPPPPPPP/RNBQKBNR w KQkq - 0 1''\<rparr>))
       \<noteq> ''rnbqkbnr/pppppppp/8/8/44/8/PPPPPPPP/RNBQKBNR''"
  by code_simp

end
